theory Spec2Isabelle
  imports Complex_Main "HOL-Library.AList" "HOL-Library.Multiset"
begin

section \<open>Python values and built-ins used by the resume pipeline\<close>

text \<open>
  The pipeline handles values decoded from JSON text by \<^verbatim>\<open>json.loads\<close>. A decoded
  value is \<^verbatim>\<open>None\<close>, a \<^verbatim>\<open>bool\<close>, an unbounded \<^verbatim>\<open>int\<close>, a \<^verbatim>\<open>float\<close>, a \<^verbatim>\<open>str\<close>,
  a \<^verbatim>\<open>list\<close> or a \<^verbatim>\<open>dict\<close> with string keys. A float is kept by its exact rational
  value, or as one of the three non-finite values that \<^verbatim>\<open>json.loads\<close> accepts
  (\<^verbatim>\<open>NaN\<close>, \<^verbatim>\<open>Infinity\<close>, \<^verbatim>\<open>-Infinity\<close>). A dict is an association list in which
  the first binding of a key is the binding of the dict. A \<^verbatim>\<open>str\<close> is a HOL string,
  one character per code point, so the model covers code points below 256.
\<close>

datatype pyfloat = Fin rat | PosInf | NegInf | NaN

datatype json =
    JNull
  | JBool bool
  | JInt int
  | JFloat pyfloat
  | JStr string
  | JList "json list"
  | JDict "(string \<times> json) list"

text \<open>
  Exceptions are values. Every constructor stands for a subclass of \<^verbatim>\<open>Exception\<close>;
  the string is the text that \<^verbatim>\<open>str(err)\<close> gives, except for \<open>KeyError\<close>, which
  holds the missing key. \<open>LibraryError cls msg\<close> is an exception raised inside one of
  the external libraries (PDF and DOCX readers, the AI client, the JSON decoder).
  Texts of exceptions raised by the interpreter follow CPython 3.12.
\<close>

datatype py_error =
    ValueError string
  | TypeError string
  | AttributeError string
  | KeyError string
  | OverflowError string
  | LibraryError string string

definition quote :: "string \<Rightarrow> string" where
  "quote s = CHR 0x27 # s @ [CHR 0x27]"

fun str_exc :: "py_error \<Rightarrow> string" where
  "str_exc (ValueError m) = m"
| "str_exc (TypeError m) = m"
| "str_exc (AttributeError m) = m"
| "str_exc (KeyError k) = quote k"
| "str_exc (OverflowError m) = m"
| "str_exc (LibraryError c m) = m"

fun type_name :: "json \<Rightarrow> string" where
  "type_name JNull = ''NoneType''"
| "type_name (JBool b) = ''bool''"
| "type_name (JInt i) = ''int''"
| "type_name (JFloat f) = ''float''"
| "type_name (JStr s) = ''str''"
| "type_name (JList xs) = ''list''"
| "type_name (JDict kvs) = ''dict''"

text \<open>
  What the code takes from outside itself: the document readers, the AI service, and
  the parts of the Python runtime whose results depend on the interpreter's version or
  configuration. All of them are parameters of the model.
\<close>

record upload =
  name :: string
  type :: string
  data :: string

record request =
  model :: string
  messages :: "(string \<times> string) list"
  max_tokens :: nat
  temperature :: rat
  response_format :: string

record env =
  pdf_pages :: "upload \<Rightarrow> py_error + string option list"
    \<comment> \<open>\<^verbatim>\<open>pdfplumber.open\<close> and \<^verbatim>\<open>extract_text\<close> of every page (\<open>None\<close> for no text)\<close>
  docx_paragraphs :: "upload \<Rightarrow> py_error + string list"
    \<comment> \<open>\<^verbatim>\<open>docx.Document\<close> and the text of every paragraph\<close>
  read_utf8 :: "upload \<Rightarrow> py_error + string"
    \<comment> \<open>\<^verbatim>\<open>read().decode("utf-8")\<close>\<close>
  chat_create :: "request list \<Rightarrow> request \<Rightarrow> py_error + string option"
    \<comment> \<open>the AI service: from the requests sent so far and the new request to the
        content of the first choice (\<open>None\<close> when the message has no content)\<close>
  json_loads :: "string \<Rightarrow> py_error + json"
  int_literal :: "string \<Rightarrow> py_error + int"
    \<comment> \<open>\<^verbatim>\<open>int(s)\<close> for a string \<open>s\<close>\<close>
  str_value :: "json \<Rightarrow> string"
    \<comment> \<open>\<^verbatim>\<open>str(v)\<close> for a value that is not a string\<close>
  repr_str :: "string \<Rightarrow> string"
    \<comment> \<open>\<^verbatim>\<open>repr(s)\<close> for a string \<open>s\<close>\<close>

subsection \<open>Built-ins\<close>

definition py_isspace :: "char \<Rightarrow> bool" where
  "py_isspace c =
     (let n = (of_char c :: nat)
      in (9 \<le> n \<and> n \<le> 13) \<or> (28 \<le> n \<and> n \<le> 32) \<or> n = 0x85 \<or> n = 0xA0)"

definition strip :: "string \<Rightarrow> string" where
  "strip s = rev (dropWhile py_isspace (rev (dropWhile py_isspace s)))"

fun join :: "string \<Rightarrow> string list \<Rightarrow> string" where
  "join sep [] = []"
| "join sep [x] = x"
| "join sep (x # y # ys) = x @ sep @ join sep (y # ys)"

fun contains_str :: "string \<Rightarrow> string \<Rightarrow> bool" where
  "contains_str p [] = (p = [])"
| "contains_str p (c # cs) = (take (length p) (c # cs) = p \<or> contains_str p cs)"

definition dict_get :: "(string \<times> json) list \<Rightarrow> string \<Rightarrow> json \<Rightarrow> json" where
  "dict_get d k dflt = (case map_of d k of Some v \<Rightarrow> v | None \<Rightarrow> dflt)"

definition trunc :: "rat \<Rightarrow> int" where
  "trunc q = (if 0 \<le> q then \<lfloor>q\<rfloor> else \<lceil>q\<rceil>)"

text \<open>\<^verbatim>\<open>int(v)\<close>.\<close>

fun py_int :: "env \<Rightarrow> json \<Rightarrow> py_error + int" where
  "py_int E (JInt i) = Inr i"
| "py_int E (JBool b) = Inr (if b then 1 else 0)"
| "py_int E (JFloat (Fin q)) = Inr (trunc q)"
| "py_int E (JFloat NaN) = Inl (ValueError ''cannot convert float NaN to integer'')"
| "py_int E (JFloat f) = Inl (OverflowError ''cannot convert float infinity to integer'')"
| "py_int E (JStr s) = int_literal E s"
| "py_int E v =
     Inl (TypeError (''int() argument must be a string, a bytes-like object or a real number, not ''
                     @ quote (type_name v)))"

text \<open>\<^verbatim>\<open>"error" in v\<close>: key membership for a dict, element membership for a list,
  substring test for a string, \<open>TypeError\<close> otherwise.\<close>

fun error_in :: "json \<Rightarrow> py_error + bool" where
  "error_in (JDict kvs) = Inr (''error'' \<in> set (map fst kvs))"
| "error_in (JList xs) = Inr (JStr ''error'' \<in> set xs)"
| "error_in (JStr s) = Inr (contains_str ''error'' s)"
| "error_in v = Inl (TypeError (''argument of type '' @ quote (type_name v) @ '' is not iterable''))"

text \<open>\<^verbatim>\<open>v.get\<close>: only a dict has the method.\<close>

fun get_method :: "json \<Rightarrow> py_error + (string \<times> json) list" where
  "get_method (JDict kvs) = Inr kvs"
| "get_method v =
     Inl (AttributeError (quote (type_name v) @ '' object has no attribute '' @ quote ''get''))"

section \<open>\<^verbatim>\<open>resume_analysis.parse_evaluation\<close>\<close>

text \<open>The tuple that \<^verbatim>\<open>parse_evaluation\<close> returns, with the names its caller gives to
  the six components.\<close>

record evaluation =
  score :: int
  match_status :: json
  skills_list :: json
  rationale :: json
  candidate_name :: json
  email_addr :: json

text \<open>The body of the \<^verbatim>\<open>try\<close> block. \<^verbatim>\<open>int(...)\<close> is the first component of the
  tuple, so it is evaluated before any other field is read.\<close>

definition parse_evaluation_try :: "env \<Rightarrow> json \<Rightarrow> py_error + evaluation" where
  "parse_evaluation_try E evaluation_data =
     (case error_in evaluation_data of
        Inl e \<Rightarrow> Inl e
      | Inr True \<Rightarrow>
          Inr \<lparr>score = 0, match_status = JStr ''No'', skills_list = JList [],
               rationale = JStr '''', candidate_name = JStr ''Unknown'',
               email_addr = JStr ''N/A''\<rparr>
      | Inr False \<Rightarrow>
          (case get_method evaluation_data of
             Inl e \<Rightarrow> Inl e
           | Inr d \<Rightarrow>
               (case py_int E (dict_get d ''Score'' (JInt 0)) of
                  Inl e \<Rightarrow> Inl e
                | Inr n \<Rightarrow>
                    Inr \<lparr>score = n,
                         match_status = dict_get d ''Match'' (JStr ''No''),
                         skills_list = dict_get d ''Skills Found'' (JList []),
                         rationale = dict_get d ''Rationale'' (JStr ''No explanation provided.''),
                         candidate_name = dict_get d ''Candidate Name'' (JStr ''Unknown''),
                         email_addr = dict_get d ''Email'' (JStr ''N/A'')\<rparr>)))"

text \<open>The whole function: \<^verbatim>\<open>except Exception as parse_err\<close> turns every exception of
  the body into the fallback tuple. A result \<open>Inl e\<close> would be an exception that leaves
  the function.\<close>

definition parse_evaluation :: "env \<Rightarrow> json \<Rightarrow> py_error + evaluation" where
  "parse_evaluation E evaluation_data =
     (case parse_evaluation_try E evaluation_data of
        Inr t \<Rightarrow> Inr t
      | Inl parse_err \<Rightarrow>
          Inr \<lparr>score = 0, match_status = JStr ''No'', skills_list = JList [],
               rationale = JStr (''Error during parsing: '' @ str_exc parse_err),
               candidate_name = JStr ''Unknown'', email_addr = JStr ''N/A''\<rparr>)"

section \<open>\<^verbatim>\<open>utils\<close>: text extraction\<close>

definition get_pdf_content :: "env \<Rightarrow> upload \<Rightarrow> py_error + string" where
  "get_pdf_content E pdf_path =
     (case pdf_pages E pdf_path of
        Inl e \<Rightarrow> Inl e
      | Inr extracted \<Rightarrow>
          (let pages = map (\<lambda>t. case t of None \<Rightarrow> '''' | Some x \<Rightarrow> x) extracted
           in Inr (strip (join ''\<newline>'' pages))))"

definition get_docx_content :: "env \<Rightarrow> upload \<Rightarrow> py_error + string" where
  "get_docx_content E docx_path =
     (case docx_paragraphs E docx_path of
        Inl e \<Rightarrow> Inl e
      | Inr paras \<Rightarrow> Inr (strip (join ''\<newline>'' paras)))"

definition get_txt_content :: "env \<Rightarrow> upload \<Rightarrow> py_error + string" where
  "get_txt_content E txt_file =
     (case read_utf8 E txt_file of
        Inl e \<Rightarrow> Inl e
      | Inr decoded \<Rightarrow> Inr (strip decoded))"

definition fetch_text_content :: "env \<Rightarrow> upload \<Rightarrow> py_error + string" where
  "fetch_text_content E file_obj =
     (if type file_obj = ''application/pdf'' then get_pdf_content E file_obj
      else if type file_obj \<in> set
                [''application/vnd.openxmlformats-officedocument.wordprocessingml.document'',
                 ''application/msword'']
           then get_docx_content E file_obj
      else if type file_obj = ''text/plain'' then get_txt_content E file_obj
      else Inl (ValueError ''Unsupported file type. Provide PDF, DOCX, or TXT only.''))"

section \<open>\<^verbatim>\<open>resume_analysis.perform_resume_evaluation\<close>\<close>

definition prompt_text :: "string \<Rightarrow> string \<Rightarrow> string" where
  \<open>prompt_text job_desc resume_content =
     ''\<newline>'' @
     ''You are a recruitment expert responsible for assessing candidate qualifications.\<newline>'' @
     ''Focus on key competencies mentioned in both the job description and resume.\<newline>'' @
     ''\<newline>'' @
     ''### Job Description:\<newline>'' @
     job_desc @ ''\<newline>'' @
     ''\<newline>'' @
     ''### Candidate Resume:\<newline>'' @
     resume_content @ ''\<newline>'' @
     ''\<newline>'' @
     ''**Evaluation Breakdown (Total out of 100):**\<newline>'' @
     ''1. Core Technical Skills (60%):\<newline>'' @
     ''   - Specific project details (45%)\<newline>'' @
     ''   - General technical knowledge (15%)\<newline>'' @
     ''2. Professional Experience (10%)\<newline>'' @
     ''3. Educational Background (20%)\<newline>'' @
     ''4. Geographic Relevance (5%)\<newline>'' @
     ''5. Additional Certifications (5%)\<newline>'' @
     ''\<newline>'' @
     ''**Result:**\<newline>'' @
     ''- "Match: Yes" for scores 70 or above.\<newline>'' @
     ''- "Match: No" for scores below 70.\<newline>'' @
     ''\<newline>'' @
     ''Provide the result in the JSON format:\<newline>'' @
     ''{\<newline>'' @
     ''  "Candidate Name": "Candidate Name",\<newline>'' @
     ''  "Email": "Email Address",\<newline>'' @
     ''  "Score": NumericScore,\<newline>'' @
     ''  "Match": "Yes/No",\<newline>'' @
     ''  "Skills Found": ["List", "of", "skills"],\<newline>'' @
     ''  "Rationale": "Short explanation"\<newline>'' @
     ''}\<newline>''\<close>

definition evaluation_request :: "string \<Rightarrow> string \<Rightarrow> request" where
  "evaluation_request job_desc resume_content =
     \<lparr>model = ''gpt-4o-mini-2024-07-18'',
      messages = [(''system'', ''You are a top-tier recruitment evaluation assistant.''),
                  (''user'', prompt_text job_desc resume_content)],
      max_tokens = 1000,
      temperature = 0,
      response_format = ''json_object''\<rparr>"

text \<open>\<^verbatim>\<open>json.loads(content)\<close> on the content of the first choice; a message without
  content gives \<^verbatim>\<open>json.loads(None)\<close>, a \<open>TypeError\<close>.\<close>

definition loads_content :: "env \<Rightarrow> string option \<Rightarrow> py_error + json" where
  "loads_content E content =
     (case content of
        None \<Rightarrow> Inl (TypeError ''the JSON object must be str, bytes or bytearray, not NoneType'')
      | Some response_str \<Rightarrow> json_loads E response_str)"

text \<open>The function takes the requests already passed to \<^verbatim>\<open>chat.completions.create\<close>
  and returns them with its own request added, when it makes the call. Both \<^verbatim>\<open>create\<close> and \<^verbatim>\<open>json.loads\<close>
  are inside the \<^verbatim>\<open>try\<close>; the test on \<^verbatim>\<open>resume_content\<close> is before it.\<close>

definition perform_resume_evaluation ::
  "env \<Rightarrow> string \<Rightarrow> string \<Rightarrow> request list \<Rightarrow> json \<times> request list" where
  "perform_resume_evaluation E job_desc resume_content sent =
     (if strip resume_content = []
      then (JDict [(''error'', JStr ''The resume content is empty.'')], sent)
      else
        (let req = evaluation_request job_desc resume_content;
             outcome = (case chat_create E sent req of
                          Inl e \<Rightarrow> Inl e
                        | Inr content \<Rightarrow> loads_content E content)
         in (case outcome of
               Inr v \<Rightarrow> v
             | Inl e \<Rightarrow> JDict [(''error'', JStr (''AI evaluation failed: '' @ str_exc e))],
             sent @ [req])))"

section \<open>\<^verbatim>\<open>resume_analysis.generate_interview_qa\<close>\<close>













section \<open>Comparison, truth value and hashing of Python values\<close>

text \<open>The number that a \<open>bool\<close>, \<open>int\<close> or \<open>float\<close> stands for in a comparison.\<close>

fun num_value :: "json \<Rightarrow> pyfloat option" where
  "num_value (JBool b) = Some (Fin (if b then 1 else 0))"
| "num_value (JInt i) = Some (Fin (of_int i))"
| "num_value (JFloat f) = Some f"
| "num_value v = None"

text \<open>\<^verbatim>\<open>a == b\<close>: numbers are compared by value across the three numeric types, and a
  NaN is equal to nothing; lists are compared element by element, dicts binding by
  binding. Values have no identity in the model, so the shortcut by which an object is
  equal to itself (which matters for a NaN only) is not part of it.\<close>

function py_eq :: "json \<Rightarrow> json \<Rightarrow> bool" where
  "py_eq (JStr a) (JStr b) = (a = b)"
| "py_eq JNull JNull = True"
| "py_eq (JList xs) (JList ys) = list_all2 py_eq xs ys"
| "py_eq (JDict a) (JDict b) =
     (let a' = AList.clearjunk a; b' = AList.clearjunk b
      in length a' = length b' \<and>
         list_all (\<lambda>(k, v). list_ex (\<lambda>(k', w). k' = k \<and> py_eq v w) b') a')"
| "py_eq (JBool x) v =
     (case num_value v of Some g \<Rightarrow> g = Fin (if x then 1 else 0) | None \<Rightarrow> False)"
| "py_eq (JInt x) v = (case num_value v of Some g \<Rightarrow> g = Fin (of_int x) | None \<Rightarrow> False)"
| "py_eq (JFloat f) v = (case num_value v of Some g \<Rightarrow> f \<noteq> NaN \<and> g = f | None \<Rightarrow> False)"
| "py_eq (JStr a) JNull = False"
| "py_eq (JStr a) (JBool b) = False"
| "py_eq (JStr a) (JInt b) = False"
| "py_eq (JStr a) (JFloat b) = False"
| "py_eq (JStr a) (JList b) = False"
| "py_eq (JStr a) (JDict b) = False"
| "py_eq JNull (JStr b) = False"
| "py_eq JNull (JBool b) = False"
| "py_eq JNull (JInt b) = False"
| "py_eq JNull (JFloat b) = False"
| "py_eq JNull (JList b) = False"
| "py_eq JNull (JDict b) = False"
| "py_eq (JList a) JNull = False"
| "py_eq (JList a) (JBool b) = False"
| "py_eq (JList a) (JInt b) = False"
| "py_eq (JList a) (JFloat b) = False"
| "py_eq (JList a) (JStr b) = False"
| "py_eq (JList a) (JDict b) = False"
| "py_eq (JDict a) JNull = False"
| "py_eq (JDict a) (JBool b) = False"
| "py_eq (JDict a) (JInt b) = False"
| "py_eq (JDict a) (JFloat b) = False"
| "py_eq (JDict a) (JStr b) = False"
| "py_eq (JDict a) (JList b) = False"
  by pat_completeness auto
termination
proof (relation "measure (\<lambda>(a, b). size a)", goal_cases)
  case 1
  show ?case by simp
next
  case (2 xs ys z yb)
  then show ?case by (simp add: size_list_estimation' less_Suc_eq_le)
next
  case (3 a b x xa y xb xc)
  have sub: "set (AList.clearjunk al) \<subseteq> set al" for al :: "(string \<times> json) list"
  proof (induction al rule: AList.clearjunk.induct)
    case 1
    show ?case by simp
  next
    case (2 p ps)
    have "set (AList.delete (fst p) ps) \<subseteq> set ps"
      by (auto simp: AList.delete_eq)
    with 2 show ?case by auto
  qed
  have sz: "(k, v) \<in> set al \<Longrightarrow> size v < Suc (size_list (size_prod (\<lambda>x. 0) size) al)"
    for k :: string and v :: json and al
    by (induction al) auto
  from 3 show ?case using sub[of a] by (auto intro: sz)
qed

text \<open>The truth value of a value in a condition.\<close>

fun truthy :: "json \<Rightarrow> bool" where
  "truthy JNull = False"
| "truthy (JBool b) = b"
| "truthy (JInt i) = (i \<noteq> 0)"
| "truthy (JFloat (Fin q)) = (q \<noteq> 0)"
| "truthy (JFloat f) = True"
| "truthy (JStr s) = (s \<noteq> [])"
| "truthy (JList xs) = (xs \<noteq> [])"
| "truthy (JDict kvs) = (kvs \<noteq> [])"

text \<open>Lists and dicts cannot be keys of a dict.\<close>

fun hashable :: "json \<Rightarrow> bool" where
  "hashable (JList xs) = False"
| "hashable (JDict kvs) = False"
| "hashable v = True"

text \<open>\<^verbatim>\<open>d[k] = v\<close> on a dict with hashable keys, kept in insertion order: a key
  equal to \<open>k\<close> keeps its place and gets the new value.\<close>

fun dict_set :: "(json \<times> 'v) list \<Rightarrow> json \<Rightarrow> 'v \<Rightarrow> (json \<times> 'v) list" where
  "dict_set [] k v = [(k, v)]"
| "dict_set ((k', v') # rest) k v =
     (if py_eq k' k then (k', v) # rest else (k', v') # dict_set rest k v)"

definition py_repr :: "env \<Rightarrow> json \<Rightarrow> string" where
  "py_repr E v = (case v of JStr s \<Rightarrow> repr_str E s | _ \<Rightarrow> str_value E v)"

text \<open>\<^verbatim>\<open>xs.index(x)\<close>: the position of the first element equal to \<open>x\<close>, \<open>ValueError\<close>
  when there is none.\<close>

fun find_index_from :: "nat \<Rightarrow> json list \<Rightarrow> json \<Rightarrow> nat option" where
  "find_index_from i [] x = None"
| "find_index_from i (y # ys) x = (if py_eq y x then Some i else find_index_from (Suc i) ys x)"

definition list_index :: "env \<Rightarrow> json list \<Rightarrow> json \<Rightarrow> py_error + nat" where
  "list_index E xs x =
     (case find_index_from 0 xs x of
        Some i \<Rightarrow> Inr i
      | None \<Rightarrow> Inl (ValueError (py_repr E x @ '' is not in list'')))"

text \<open>\<^verbatim>\<open>sorted(xs, key=key, reverse=True)\<close>. The sort is stable; with \<^verbatim>\<open>reverse=True\<close>
  CPython reverses the list, sorts it in ascending order of the key with its stable
  sort, and reverses the result. \<open>sort_key\<close> is the stable insertion sort of HOL.\<close>

definition sorted_reverse :: "('a \<Rightarrow> int) \<Rightarrow> 'a list \<Rightarrow> 'a list" where
  "sorted_reverse key xs = rev (sort_key key (rev xs))"

section \<open>The Firestore documents that \<^verbatim>\<open>authentication.log_usage\<close> writes\<close>

record usage_entry =
  user_email :: string
  resumes_processed :: int

record user_doc =
  total_resumes :: int
  login_count :: int

section \<open>\<^verbatim>\<open>resume_analysis.display_resume_dashboard\<close>\<close>

text \<open>One entry of \<^verbatim>\<open>st.session_state.results\<close>: a dict with six fixed keys.\<close>

record candidate =
  Candidate_Name :: json
  Email :: json
  Score :: int
  Match :: json
  Skills_Found :: json
  Rationale :: json

text \<open>
  The state that a run of the dashboard reads and changes: the keys of
  \<^verbatim>\<open>st.session_state\<close>, the requests sent to the AI service, the messages shown with
  \<^verbatim>\<open>st.error\<close>, and the two Firestore collections that \<^verbatim>\<open>log_usage\<close> writes.
  \<open>selected_candidate\<close> is \<open>JNull\<close> for \<^verbatim>\<open>None\<close>. \<open>user_info\<close> is \<open>None\<close> when the session
  has no such key; \<open>user_details\<close> is the key that \<^verbatim>\<open>app.py\<close> and \<^verbatim>\<open>login_user\<close> set.
  The timestamp of a usage entry is wall-clock time and is left out.
\<close>

record state =
  results :: "candidate list"
  resume_texts :: "(json \<times> string) list"
  selected_candidate :: json
  user_details :: "(string \<times> string) list option"
  user_info :: "(string \<times> string) list option"
  sent :: "request list"
  shown_errors :: "string list"
  usage_logs :: "usage_entry list"
  users :: "string \<rightharpoonup> user_doc"

text \<open>A statement that may raise after it has changed the state returns both.\<close>

type_synonym effect = "py_error option \<times> state"

text \<open>\<^verbatim>\<open>log_usage\<close>: \<^verbatim>\<open>set\<close> adds the entry; \<^verbatim>\<open>update\<close> raises the library's
  \<open>NotFound\<close> when the user has no document (its text is not modelled).\<close>

definition log_usage :: "string \<Rightarrow> nat \<Rightarrow> state \<Rightarrow> effect" where
  "log_usage email cnt st =
     (let st' = st\<lparr>usage_logs := usage_logs st @
                     [\<lparr>user_email = email, resumes_processed = int cnt\<rparr>]\<rparr>
      in case users st' email of
           None \<Rightarrow> (Some (LibraryError ''NotFound'' ''''), st')
         | Some doc \<Rightarrow>
             (None, st'\<lparr>users := (users st')(email \<mapsto>
                doc\<lparr>total_resumes := total_resumes doc + int cnt,
                    login_count := login_count doc + 1\<rparr>)\<rparr>))"

text \<open>The statements inside the \<^verbatim>\<open>try\<close> of the loop over the uploaded files.\<close>

definition process_resume :: "env \<Rightarrow> string \<Rightarrow> upload \<Rightarrow> state \<Rightarrow> effect" where
  "process_resume E jd_text resume st =
     (case fetch_text_content E resume of
        Inl err \<Rightarrow> (Some err, st)
      | Inr text_content \<Rightarrow>
          (let (eval_output, sent') = perform_resume_evaluation E jd_text text_content (sent st);
               st1 = st\<lparr>sent := sent'\<rparr>
           in case parse_evaluation E eval_output of
                Inl err \<Rightarrow> (Some err, st1)
              | Inr t \<Rightarrow>
                  (let st2 = st1\<lparr>results := results st1 @
                               [\<lparr>Candidate_Name = candidate_name t,
                                 Email = email_addr t,
                                 Score = score t,
                                 Match = match_status t,
                                 Skills_Found = skills_list t,
                                 Rationale = rationale t\<rparr>]\<rparr>
                   in if hashable (candidate_name t)
                      then (None, st2\<lparr>resume_texts :=
                                   dict_set (resume_texts st2) (candidate_name t) text_content\<rparr>)
                      else (Some (TypeError (''unhashable type: '' @
                                             quote (type_name (candidate_name t)))), st2))))"

text \<open>\<^verbatim>\<open>try: ... except Exception as err: st.error(...)\<close> around the body.\<close>

definition try_resume :: "env \<Rightarrow> string \<Rightarrow> upload \<Rightarrow> state \<Rightarrow> effect" where
  "try_resume E jd_text resume st =
     (case process_resume E jd_text resume st of
        (None, st') \<Rightarrow> (None, st')
      | (Some err, st') \<Rightarrow>
          (None, st'\<lparr>shown_errors := shown_errors st' @
                      [''Failed to process '' @ name resume @ '': '' @ str_exc err]\<rparr>))"

text \<open>A \<^verbatim>\<open>for\<close> loop: an exception that leaves the body ends the loop.\<close>

fun for_each :: "('a \<Rightarrow> state \<Rightarrow> effect) \<Rightarrow> 'a list \<Rightarrow> state \<Rightarrow> effect" where
  "for_each body [] st = (None, st)"
| "for_each body (x # xs) st =
     (case body x st of
        (Some err, st') \<Rightarrow> (Some err, st')
      | (None, st') \<Rightarrow> for_each body xs st')"

definition evaluate_uploads :: "env \<Rightarrow> string \<Rightarrow> upload list \<Rightarrow> state \<Rightarrow> effect" where
  "evaluate_uploads E jd_text upload_files st = for_each (try_resume E jd_text) upload_files st"

text \<open>\<^verbatim>\<open>st.session_state.user_info['email']\<close>: reading a key that the session does not
  have raises \<open>AttributeError\<close> (the text of the library goes on with a link to its
  documentation, which is left out).\<close>

definition user_info_email :: "state \<Rightarrow> py_error + string" where
  \<open>user_info_email st =
     (case user_info st of
        None \<Rightarrow> Inl (AttributeError ''st.session_state has no attribute "user_info". Did you forget to initialize it?'')
      | Some info \<Rightarrow>
          (case map_of info ''email'' of
             None \<Rightarrow> Inl (KeyError ''email'')
           | Some email \<Rightarrow> Inr email))\<close>

text \<open>The block under \<^verbatim>\<open>if analyze_trigger:\<close>.\<close>

definition analyze :: "env \<Rightarrow> string \<Rightarrow> upload list \<Rightarrow> state \<Rightarrow> effect" where
  "analyze E jd_text upload_files st =
     (case evaluate_uploads E jd_text upload_files (st\<lparr>results := [], resume_texts := []\<rparr>) of
        (Some err, st') \<Rightarrow> (Some err, st')
      | (None, st') \<Rightarrow>
          (if results st' \<noteq> []
           then (case user_info_email st' of
                   Inl err \<Rightarrow> (Some err, st')
                 | Inr email \<Rightarrow> log_usage email (length upload_files) st')
           else (None, st')))"

text \<open>\<^verbatim>\<open>st.selectbox(label, options, index)\<close> gives the option at \<open>index\<close>, or the
  option that the user has picked in the widget (\<open>pick\<close>), if any.\<close>

definition selectbox :: "json list \<Rightarrow> nat \<Rightarrow> nat option \<Rightarrow> json" where
  "selectbox options index pick =
     (let i = (case pick of Some j \<Rightarrow> if j < length options then j else index | None \<Rightarrow> index)
      in if i < length options then options ! i else JNull)"

text \<open>The block under \<^verbatim>\<open>if st.session_state.results:\<close>, up to the assignment of the
  selected candidate.\<close>

definition default_index :: "env \<Rightarrow> json list \<Rightarrow> json \<Rightarrow> py_error + nat" where
  "default_index E candidate_names selected =
     (if truthy selected then list_index E candidate_names selected else Inr 0)"

definition select_candidate :: "env \<Rightarrow> nat option \<Rightarrow> state \<Rightarrow> effect" where
  "select_candidate E pick st =
     (let sorted_candidates = sorted_reverse Score (results st);
          candidate_names = map Candidate_Name sorted_candidates
      in case default_index E candidate_names (selected_candidate st) of
           Inl err \<Rightarrow> (Some err, st)
         | Inr index \<Rightarrow>
             (None, st\<lparr>selected_candidate := selectbox candidate_names index pick\<rparr>))"

text \<open>A run of the dashboard. The button is disabled, and gives \<open>False\<close>, unless there
  are a job description and uploaded files.\<close>

definition display_resume_dashboard ::
  "env \<Rightarrow> string \<Rightarrow> upload list \<Rightarrow> bool \<Rightarrow> nat option \<Rightarrow> state \<Rightarrow> effect" where
  "display_resume_dashboard E jd_text upload_files clicked pick st =
     (let analyze_trigger = (clicked \<and> jd_text \<noteq> [] \<and> upload_files \<noteq> [])
      in case (if analyze_trigger then analyze E jd_text upload_files st else (None, st)) of
           (Some err, st') \<Rightarrow> (Some err, st')
         | (None, st') \<Rightarrow>
             (if results st' \<noteq> [] then select_candidate E pick st' else (None, st')))"

section \<open>Example inputs\<close>

text \<open>An environment for the examples: every document reader gives the data of the
  file as its text, the AI service answers an evaluation request (1000 tokens) with
  one fixed evaluation and any other request with two questions, and the JSON decoder
  knows these two answers. The parts of the runtime that the examples do not reach are
  left trivial.\<close>

definition jane_reply :: string where
  \<open>jane_reply = ''{"Candidate Name":"Jane Doe","Email":"jane@x.com","Score":85,"Match":"Yes","Skills Found":["Python","SQL"],"Rationale":"Strong fit"}''\<close>

definition jane_json :: json where
  "jane_json =
     JDict [(''Candidate Name'', JStr ''Jane Doe''), (''Email'', JStr ''jane@x.com''),
            (''Score'', JInt 85), (''Match'', JStr ''Yes''),
            (''Skills Found'', JList [JStr ''Python'', JStr ''SQL'']),
            (''Rationale'', JStr ''Strong fit'')]"

definition qa_reply :: string where
  \<open>qa_reply = ''{"questions":[{"question":"What is a list?","answer":"A sequence."},{"question":"What is a dict?","answer":"A mapping."}]}''\<close>

definition qa_json :: json where
  "qa_json =
     JDict [(''questions'',
             JList [JDict [(''question'', JStr ''What is a list?''), (''answer'', JStr ''A sequence.'')],
                    JDict [(''question'', JStr ''What is a dict?''), (''answer'', JStr ''A mapping.'')]])]"

definition demo_env :: env where
  "demo_env =
     \<lparr>pdf_pages = (\<lambda>f. Inr [Some (data f)]),
      docx_paragraphs = (\<lambda>f. Inr [data f]),
      read_utf8 = (\<lambda>f. Inr (data f)),
      chat_create = (\<lambda>sent req. Inr (Some (if max_tokens req = 1000 then jane_reply else qa_reply))),
      json_loads = (\<lambda>s. if s = jane_reply then Inr jane_json
                         else if s = qa_reply then Inr qa_json
                         else Inl (LibraryError ''JSONDecodeError''
                                     ''Expecting value: line 1 column 1 (char 0)'')),
      int_literal = (\<lambda>s. if s = ''85'' then Inr 85
                          else Inl (ValueError (''invalid literal for int() with base 10: ''
                                                @ quote s))),
      str_value = (\<lambda>v. ''''),
      repr_str = quote\<rparr>"

text \<open>A batch of three files, the second of an unsupported type.\<close>

definition alice_txt :: upload where
  "alice_txt = \<lparr>name = ''alice.txt'', type = ''text/plain'', data = ''Alice. Python, SQL.''\<rparr>"

definition photo_png :: upload where
  "photo_png = \<lparr>name = ''photo.png'', type = ''image/png'', data = ''''\<rparr>"

definition carol_pdf :: upload where
  "carol_pdf = \<lparr>name = ''carol.pdf'', type = ''application/pdf'', data = ''Carol. Java.''\<rparr>"

definition demo_files :: "upload list" where
  "demo_files = [alice_txt, photo_png, carol_pdf]"

text \<open>The session as \<^verbatim>\<open>app.py\<close> leaves it after a login, before the first
  evaluation: \<open>user_details\<close> is set, and nothing in the repository sets \<open>user_info\<close>.\<close>

definition app_state :: state where
  "app_state =
     \<lparr>results = [], resume_texts = [], selected_candidate = JNull,
      user_details = Some [(''name'', ''Dana''), (''email'', ''dana@companyemail.com''),
                           (''role'', ''user'')],
      user_info = None,
      sent = [], shown_errors = [], usage_logs = [],
      users = [''dana@companyemail.com'' \<mapsto> \<lparr>total_resumes = 0, login_count = 0\<rparr>]\<rparr>"

text \<open>Four records with the scores 40, 90, 90, 10, named by their place in the
  batch.\<close>

definition row :: "string \<Rightarrow> int \<Rightarrow> candidate" where
  "row n s =
     \<lparr>Candidate_Name = JStr n, Email = JStr ''N/A'', Score = s,
      Match = JStr (if 70 \<le> s then ''Yes'' else ''No''), Skills_Found = JList [],
      Rationale = JStr ''''\<rparr>"

definition four_rows :: "candidate list" where
  "four_rows = [row ''first'' 40, row ''second'' 90, row ''third'' 90, row ''fourth'' 10]"

text \<open>A session in which the candidate selected before, Alice, is not among the
  candidates of the new batch.\<close>

definition stale_state :: state where
  "stale_state = app_state\<lparr>results := [row ''Bob'' 80],
                           resume_texts := [(JStr ''Bob'', ''Bob. Go.'')],
                           selected_candidate := JStr ''Alice''\<rparr>"

text \<open>An environment in which every call of the AI service fails.\<close>

definition failing_env :: env where
  "failing_env =
     demo_env\<lparr>chat_create :=
       (\<lambda>sent req. Inl (LibraryError ''APIConnectionError'' ''Connection error.''))\<rparr>"

text \<open>The record that the example service's evaluation gives.\<close>

definition jane_row :: candidate where
  "jane_row =
     \<lparr>Candidate_Name = JStr ''Jane Doe'', Email = JStr ''jane@x.com'', Score = 85,
      Match = JStr ''Yes'', Skills_Found = JList [JStr ''Python'', JStr ''SQL''],
      Rationale = JStr ''Strong fit''\<rparr>"

text \<open>An environment in which the AI service answers every request with text that is
  not JSON.\<close>

definition garbled_env :: env where
  "garbled_env =
     demo_env\<lparr>chat_create := (\<lambda>sent req. Inr (Some ''I cannot answer that.''))\<rparr>"

text \<open>The record that a file gets when its evaluation fails inside the engine.\<close>

definition unknown_row :: candidate where
  "unknown_row =
     \<lparr>Candidate_Name = JStr ''Unknown'', Email = JStr ''N/A'', Score = 0,
      Match = JStr ''No'', Skills_Found = JList [], Rationale = JStr ''''\<rparr>"

section \<open>Notions used to state the properties\<close>

text \<open>The texts of the files of a batch whose extraction succeeds, in the order of
  the batch.\<close>

fun extracted_texts :: "env \<Rightarrow> upload list \<Rightarrow> string list" where
  "extracted_texts E [] = []"
| "extracted_texts E (f # fs) =
     (case fetch_text_content E f of
        Inl e \<Rightarrow> extracted_texts E fs
      | Inr t \<Rightarrow> t # extracted_texts E fs)"



section \<open>Properties\<close>

subsection \<open>Normalisation of the evaluation\<close>

lemma parse_evaluation_not_Inl: "parse_evaluation E evaluation_data \<noteq> Inl e"
  by (cases "parse_evaluation_try E evaluation_data") (simp_all add: parse_evaluation_def)

text \<open>Claim C3: \<^verbatim>\<open>parse_evaluation\<close> is total. Whatever value it is given (a
  well-formed evaluation, an error sentinel, or data of any other shape or type), it
  returns a tuple of six components, and no exception leaves it.\<close>

theorem parse_evaluation_total: "\<exists>t. parse_evaluation E evaluation_data = Inr t"
  by (cases "parse_evaluation_try E evaluation_data") (simp_all add: parse_evaluation_def)

text \<open>Claim C4, as the code has it: for every dict with an \<^verbatim>\<open>"error"\<close> key, whatever
  the message and the other keys, \<^verbatim>\<open>parse_evaluation\<close> returns score 0, match
  \<^verbatim>\<open>"No"\<close>, no skills, an empty rationale (the message is dropped), candidate name
  \<^verbatim>\<open>"Unknown"\<close> and email \<^verbatim>\<open>"N/A"\<close>.\<close>

theorem parse_evaluation_error_key:
  "''error'' \<in> fst ` set kvs \<Longrightarrow>
   parse_evaluation E (JDict kvs) =
     Inr \<lparr>score = 0, match_status = JStr ''No'', skills_list = JList [],
          rationale = JStr '''', candidate_name = JStr ''Unknown'',
          email_addr = JStr ''N/A''\<rparr>"
  by (simp add: parse_evaluation_def parse_evaluation_try_def)

theorem parse_evaluation_error_key_witness:
  "''error'' \<in> fst ` set [(''error'', JStr ''AI evaluation failed: timeout''), (''Score'', JInt 90)]
   \<and> parse_evaluation demo_env
         (JDict [(''error'', JStr ''AI evaluation failed: timeout''), (''Score'', JInt 90)]) =
       Inr \<lparr>score = 0, match_status = JStr ''No'', skills_list = JList [],
            rationale = JStr '''', candidate_name = JStr ''Unknown'',
            email_addr = JStr ''N/A''\<rparr>"
  using parse_evaluation_error_key
          [of "[(''error'', JStr ''AI evaluation failed: timeout''), (''Score'', JInt 90)]" demo_env]
  by simp

text \<open>Claim C4, as the spec states it, fails: on the sentinel of a failed service call
  the email is the string \<^verbatim>\<open>"N/A"\<close>, not null, and the match is the string \<^verbatim>\<open>"No"\<close>,
  not the boolean false.\<close>

theorem parse_evaluation_sentinel_counterexample:
  "parse_evaluation demo_env (JDict [(''error'', JStr ''AI evaluation failed: boom'')]) =
     Inr \<lparr>score = 0, match_status = JStr ''No'', skills_list = JList [],
          rationale = JStr '''', candidate_name = JStr ''Unknown'',
          email_addr = JStr ''N/A''\<rparr>
   \<and> JStr ''N/A'' \<noteq> JNull \<and> JStr ''No'' \<noteq> JBool False"
  by (simp add: parse_evaluation_def parse_evaluation_try_def)

text \<open>Claim C10: for every dict without an \<^verbatim>\<open>"error"\<close> key whose \<^verbatim>\<open>"Score"\<close> cannot be
  turned into an integer, \<^verbatim>\<open>parse_evaluation\<close> drops the whole record: it returns
  score 0, match \<^verbatim>\<open>"No"\<close>, no skills, candidate name \<^verbatim>\<open>"Unknown"\<close>, email \<^verbatim>\<open>"N/A"\<close>
  and a rationale that reports the error of the conversion, whatever the other fields
  of the input are.\<close>

theorem parse_evaluation_bad_score:
  "''error'' \<notin> fst ` set d \<Longrightarrow> py_int E (dict_get d ''Score'' (JInt 0)) = Inl e \<Longrightarrow>
   parse_evaluation E (JDict d) =
     Inr \<lparr>score = 0, match_status = JStr ''No'', skills_list = JList [],
          rationale = JStr (''Error during parsing: '' @ str_exc e),
          candidate_name = JStr ''Unknown'', email_addr = JStr ''N/A''\<rparr>"
  by (simp add: parse_evaluation_def parse_evaluation_try_def)

theorem parse_evaluation_bad_score_witness:
  "''error'' \<notin> fst ` set
      [(''Candidate Name'', JStr ''Jane Doe''), (''Email'', JStr ''jane@x.com''),
       (''Score'', JStr ''high''), (''Match'', JStr ''Yes''),
       (''Skills Found'', JList [JStr ''Python'', JStr ''SQL'']),
       (''Rationale'', JStr ''Strong fit'')]
   \<and> py_int demo_env (dict_get
        [(''Candidate Name'', JStr ''Jane Doe''), (''Email'', JStr ''jane@x.com''),
         (''Score'', JStr ''high''), (''Match'', JStr ''Yes''),
         (''Skills Found'', JList [JStr ''Python'', JStr ''SQL'']),
         (''Rationale'', JStr ''Strong fit'')] ''Score'' (JInt 0)) =
       Inl (ValueError (''invalid literal for int() with base 10: '' @ quote ''high''))
   \<and> parse_evaluation demo_env (JDict
        [(''Candidate Name'', JStr ''Jane Doe''), (''Email'', JStr ''jane@x.com''),
         (''Score'', JStr ''high''), (''Match'', JStr ''Yes''),
         (''Skills Found'', JList [JStr ''Python'', JStr ''SQL'']),
         (''Rationale'', JStr ''Strong fit'')]) =
       Inr \<lparr>score = 0, match_status = JStr ''No'', skills_list = JList [],
            rationale = JStr (''Error during parsing: invalid literal for int() with base 10: ''
                              @ quote ''high''),
            candidate_name = JStr ''Unknown'', email_addr = JStr ''N/A''\<rparr>"
  using parse_evaluation_bad_score
          [of "[(''Candidate Name'', JStr ''Jane Doe''), (''Email'', JStr ''jane@x.com''),
                (''Score'', JStr ''high''), (''Match'', JStr ''Yes''),
                (''Skills Found'', JList [JStr ''Python'', JStr ''SQL'']),
                (''Rationale'', JStr ''Strong fit'')]"
              demo_env
              "ValueError (''invalid literal for int() with base 10: '' @ quote ''high'')"]
  by (simp add: dict_get_def demo_env_def)

subsection \<open>Evaluation engine\<close>

lemma strip_alice: "strip ''Alice. Python, SQL.'' = ''Alice. Python, SQL.''"
  by (simp add: strip_def py_isspace_def)

lemma strip_carol: "strip ''Carol. Java.'' = ''Carol. Java.''"
  by (simp add: strip_def py_isspace_def)

lemma strip_blank: "strip [CHR '' '', CHR 0x09, CHR ''\<newline>''] = []"
  by (simp add: strip_def py_isspace_def)

lemma sent_perform_resume_evaluation:
  "snd (perform_resume_evaluation E job_desc resume_content s) =
     s @ (if strip resume_content = [] then []
          else [evaluation_request job_desc resume_content])"
  by (simp add: perform_resume_evaluation_def Let_def)

text \<open>Claim C2, as the code has it: for every job description, empty or not, and
  every resume text that is empty or consists of whitespace only,
  \<^verbatim>\<open>perform_resume_evaluation\<close> returns the error sentinel, which normalises to the
  zero-score record, and sends nothing to the AI service. The job description is not
  tested: when the resume text is not blank, one request is sent, whatever the job
  description is.\<close>

theorem blank_resume_short_circuits:
  "(strip resume_content = [] \<longrightarrow>
      perform_resume_evaluation E job_desc resume_content s =
        (JDict [(''error'', JStr ''The resume content is empty.'')], s)
      \<and> parse_evaluation E (fst (perform_resume_evaluation E job_desc resume_content s)) =
          Inr \<lparr>score = 0, match_status = JStr ''No'', skills_list = JList [],
               rationale = JStr '''', candidate_name = JStr ''Unknown'',
               email_addr = JStr ''N/A''\<rparr>)
   \<and> (strip resume_content \<noteq> [] \<longrightarrow>
        snd (perform_resume_evaluation E job_desc resume_content s) =
          s @ [evaluation_request job_desc resume_content])"
  by (simp add: perform_resume_evaluation_def Let_def parse_evaluation_def
        parse_evaluation_try_def)

theorem blank_resume_short_circuits_witness:
  "strip [CHR '' '', CHR 0x09, CHR ''\<newline>''] = []
   \<and> perform_resume_evaluation demo_env ''Python developer'' [CHR '' '', CHR 0x09, CHR ''\<newline>''] [] =
       (JDict [(''error'', JStr ''The resume content is empty.'')], [])
   \<and> strip ''Alice. Python, SQL.'' \<noteq> []
   \<and> snd (perform_resume_evaluation demo_env '''' ''Alice. Python, SQL.'' []) =
       [evaluation_request '''' ''Alice. Python, SQL.'']"
  using blank_resume_short_circuits
          [of "[CHR '' '', CHR 0x09, CHR ''\<newline>'']" demo_env "''Python developer''" "[]"]
        blank_resume_short_circuits
          [of "''Alice. Python, SQL.''" demo_env "''''" "[]"]
  by (simp add: strip_alice strip_blank)

text \<open>Claim C2, as the spec states it, fails: with an empty job description and a
  resume text that is not blank, a request is sent to the AI service and the result is
  the decoded answer of the service, not the sentinel.\<close>

theorem empty_job_description_counterexample:
  "snd (perform_resume_evaluation demo_env '''' ''Alice. Python, SQL.'' []) =
     [evaluation_request '''' ''Alice. Python, SQL.'']
   \<and> fst (perform_resume_evaluation demo_env '''' ''Alice. Python, SQL.'' []) = jane_json"
  by (simp add: perform_resume_evaluation_def Let_def strip_alice demo_env_def
        evaluation_request_def loads_content_def)

subsection \<open>Text extraction\<close>

text \<open>Claim C7, as the code has it: for every file whose declared media type is none
  of the four supported ones, extraction raises a \<open>ValueError\<close> with one fixed text,
  which does not name the media type; the loop reports it under the name of the file
  and changes nothing else, so no request is sent to the AI service and no record is
  added for that file.\<close>

theorem unsupported_type_rejected:
  "type f \<notin> {''application/pdf'',
              ''application/vnd.openxmlformats-officedocument.wordprocessingml.document'',
              ''application/msword'', ''text/plain''} \<Longrightarrow>
   fetch_text_content E f =
     Inl (ValueError ''Unsupported file type. Provide PDF, DOCX, or TXT only.'')
   \<and> try_resume E jd_text f st =
       (None, st\<lparr>shown_errors := shown_errors st @
                   [''Failed to process '' @ name f @
                    '': Unsupported file type. Provide PDF, DOCX, or TXT only.'']\<rparr>)"
  by (simp add: fetch_text_content_def try_resume_def process_resume_def)

theorem unsupported_type_rejected_witness:
  "type photo_png \<notin> {''application/pdf'',
              ''application/vnd.openxmlformats-officedocument.wordprocessingml.document'',
              ''application/msword'', ''text/plain''}
   \<and> fetch_text_content demo_env photo_png =
       Inl (ValueError ''Unsupported file type. Provide PDF, DOCX, or TXT only.'')
   \<and> try_resume demo_env ''Python developer'' photo_png app_state =
       (None, app_state\<lparr>shown_errors :=
          [''Failed to process photo.png: Unsupported file type. Provide PDF, DOCX, or TXT only.'']\<rparr>)"
  using unsupported_type_rejected [of photo_png demo_env "''Python developer''" app_state]
  by (simp add: photo_png_def app_state_def)

text \<open>Claim C7, as the spec states it, fails: the error raised for a file of type
  \<^verbatim>\<open>image/png\<close> is the fixed \<open>ValueError\<close>, and its text does not contain the media
  type.\<close>

theorem unsupported_type_counterexample:
  "fetch_text_content demo_env photo_png =
     Inl (ValueError ''Unsupported file type. Provide PDF, DOCX, or TXT only.'')
   \<and> \<not> contains_str (type photo_png)
         (str_exc (ValueError ''Unsupported file type. Provide PDF, DOCX, or TXT only.''))"
  by (simp add: fetch_text_content_def photo_png_def)

subsection \<open>The loop over the uploaded files\<close>

lemma try_resume_fetch_fails:
  assumes "fetch_text_content E f = Inl e"
  shows "try_resume E jd_text f st =
           (None, st\<lparr>shown_errors := shown_errors st @
                       [''Failed to process '' @ name f @ '': '' @ str_exc e]\<rparr>)"
  using assms by (simp add: try_resume_def process_resume_def)

text \<open>A file whose text is extracted always gives a record: the evaluation returns
  a value on every path and the normalisation never raises. Only the bookkeeping for a
  candidate name that is a list or a dict can still raise, after the record is
  added.\<close>

lemma try_resume_fetch_ok:
  assumes "fetch_text_content E f = Inr t"
  shows "\<exists>st'. try_resume E jd_text f st = (None, st')
           \<and> length (results st') = Suc (length (results st))
           \<and> sent st' = sent st @ (if strip t = [] then [] else [evaluation_request jd_text t])
           \<and> set (shown_errors st) \<subseteq> set (shown_errors st')
           \<and> usage_logs st' = usage_logs st \<and> user_info st' = user_info st
           \<and> users st' = users st"
proof -
  obtain v s' where p: "perform_resume_evaluation E jd_text t (sent st) = (v, s')"
    by (cases "perform_resume_evaluation E jd_text t (sent st)")
  have s': "s' = sent st @ (if strip t = [] then [] else [evaluation_request jd_text t])"
    using sent_perform_resume_evaluation[of E jd_text t "sent st"] p by simp
  obtain r where r: "parse_evaluation E v = Inr r"
    using parse_evaluation_not_Inl[of E v] by (cases "parse_evaluation E v") auto
  show ?thesis
    using assms p r s'
    by (cases "hashable (candidate_name r)")
       (auto simp: try_resume_def process_resume_def Let_def)
qed

lemma evaluate_uploads_Cons:
  "evaluate_uploads E jd_text (f # fs) st =
     (case try_resume E jd_text f st of
        (Some err, st') \<Rightarrow> (Some err, st')
      | (None, st') \<Rightarrow> evaluate_uploads E jd_text fs st')"
  by (simp add: evaluate_uploads_def split: prod.splits option.splits)

lemma evaluate_uploads_invariant:
  "\<exists>st'. evaluate_uploads E jd_text fs st = (None, st')
     \<and> length (results st') = length (results st) + length (extracted_texts E fs)
     \<and> sent st' = sent st @ map (evaluation_request jd_text)
                              (filter (\<lambda>t. strip t \<noteq> []) (extracted_texts E fs))
     \<and> set (shown_errors st) \<subseteq> set (shown_errors st')
     \<and> (\<forall>f\<in>set fs. \<forall>e. fetch_text_content E f = Inl e \<longrightarrow>
            ''Failed to process '' @ name f @ '': '' @ str_exc e \<in> set (shown_errors st'))
     \<and> usage_logs st' = usage_logs st \<and> user_info st' = user_info st
     \<and> users st' = users st"
proof (induction fs arbitrary: st)
  case Nil
  show ?case by (simp add: evaluate_uploads_def)
next
  case (Cons f fs)
  show ?case
  proof (cases "fetch_text_content E f")
    case (Inl e)
    let ?s1 = "st\<lparr>shown_errors := shown_errors st @
                       [''Failed to process '' @ name f @ '': '' @ str_exc e]\<rparr>"
    from Cons.IH[of ?s1] obtain st' where
      st': "evaluate_uploads E jd_text fs ?s1 = (None, st')"
        "length (results st') = length (results ?s1) + length (extracted_texts E fs)"
        "sent st' = sent ?s1 @ map (evaluation_request jd_text)
                              (filter (\<lambda>t. strip t \<noteq> []) (extracted_texts E fs))"
        "set (shown_errors ?s1) \<subseteq> set (shown_errors st')"
        "\<forall>f\<in>set fs. \<forall>e. fetch_text_content E f = Inl e \<longrightarrow>
            ''Failed to process '' @ name f @ '': '' @ str_exc e \<in> set (shown_errors st')"
        "usage_logs st' = usage_logs ?s1" "user_info st' = user_info ?s1"
        "users st' = users ?s1"
      by blast
    have "evaluate_uploads E jd_text (f # fs) st = (None, st')"
      using st'(1) try_resume_fetch_fails[OF Inl] by (simp add: evaluate_uploads_Cons)
    with st'(2-8) Inl show ?thesis by auto
  next
    case (Inr t)
    from try_resume_fetch_ok[OF Inr, of jd_text st] obtain s1 where
      s1: "try_resume E jd_text f st = (None, s1)"
        "length (results s1) = Suc (length (results st))"
        "sent s1 = sent st @ (if strip t = [] then [] else [evaluation_request jd_text t])"
        "set (shown_errors st) \<subseteq> set (shown_errors s1)"
        "usage_logs s1 = usage_logs st" "user_info s1 = user_info st" "users s1 = users st"
      by blast
    from Cons.IH[of s1] obtain st' where
      st': "evaluate_uploads E jd_text fs s1 = (None, st')"
        "length (results st') = length (results s1) + length (extracted_texts E fs)"
        "sent st' = sent s1 @ map (evaluation_request jd_text)
                              (filter (\<lambda>t. strip t \<noteq> []) (extracted_texts E fs))"
        "set (shown_errors s1) \<subseteq> set (shown_errors st')"
        "\<forall>f\<in>set fs. \<forall>e. fetch_text_content E f = Inl e \<longrightarrow>
            ''Failed to process '' @ name f @ '': '' @ str_exc e \<in> set (shown_errors st')"
        "usage_logs st' = usage_logs s1" "user_info st' = user_info s1"
        "users st' = users s1"
      by blast
    have "evaluate_uploads E jd_text (f # fs) st = (None, st')"
      using st'(1) s1(1) by (simp add: evaluate_uploads_Cons)
    with st'(2-8) s1(2-7) Inr show ?thesis by auto
  qed
qed

text \<open>The example batch, step by step.\<close>

lemma fetch_alice: "fetch_text_content demo_env alice_txt = Inr ''Alice. Python, SQL.''"
  by (simp add: fetch_text_content_def alice_txt_def get_txt_content_def demo_env_def
        strip_alice)

lemma fetch_photo:
  "fetch_text_content demo_env photo_png =
     Inl (ValueError ''Unsupported file type. Provide PDF, DOCX, or TXT only.'')"
  by (simp add: fetch_text_content_def photo_png_def)

lemma fetch_carol: "fetch_text_content demo_env carol_pdf = Inr ''Carol. Java.''"
  by (simp add: fetch_text_content_def carol_pdf_def get_pdf_content_def demo_env_def
        strip_carol)

lemma extracted_demo:
  "extracted_texts demo_env demo_files = [''Alice. Python, SQL.'', ''Carol. Java.'']"
  by (simp add: demo_files_def fetch_alice fetch_photo fetch_carol)

lemma perform_resume_evaluation_demo:
  "strip t \<noteq> [] \<Longrightarrow>
   perform_resume_evaluation demo_env jd_text t s = (jane_json, s @ [evaluation_request jd_text t])"
  by (simp add: perform_resume_evaluation_def Let_def demo_env_def evaluation_request_def
        loads_content_def)

lemma parse_evaluation_jane:
  "parse_evaluation demo_env jane_json =
     Inr \<lparr>score = 85, match_status = JStr ''Yes'',
          skills_list = JList [JStr ''Python'', JStr ''SQL''],
          rationale = JStr ''Strong fit'', candidate_name = JStr ''Jane Doe'',
          email_addr = JStr ''jane@x.com''\<rparr>"
  by (simp add: parse_evaluation_def parse_evaluation_try_def jane_json_def dict_get_def)

lemma try_resume_demo:
  "fetch_text_content demo_env f = Inr t \<Longrightarrow> strip t \<noteq> [] \<Longrightarrow>
   try_resume demo_env jd_text f st =
     (None, st\<lparr>sent := sent st @ [evaluation_request jd_text t],
               results := results st @ [jane_row],
               resume_texts := dict_set (resume_texts st) (JStr ''Jane Doe'') t\<rparr>)"
  by (simp add: try_resume_def process_resume_def perform_resume_evaluation_demo
        parse_evaluation_jane jane_row_def)

lemma evaluate_uploads_demo:
  "evaluate_uploads demo_env jd_text demo_files (app_state\<lparr>results := [], resume_texts := []\<rparr>) =
    (None, app_state\<lparr>
       results := [jane_row, jane_row],
       resume_texts := [(JStr ''Jane Doe'', ''Carol. Java.'')],
       sent := [evaluation_request jd_text ''Alice. Python, SQL.'',
                evaluation_request jd_text ''Carol. Java.''],
       shown_errors := [''Failed to process photo.png: Unsupported file type. Provide PDF, DOCX, or TXT only.'']\<rparr>)"
  apply (simp add: evaluate_uploads_def demo_files_def)
  apply (simp add: try_resume_demo[OF fetch_alice] strip_alice)
  apply (simp add: try_resume_fetch_fails[OF fetch_photo])
  apply (simp add: try_resume_demo[OF fetch_carol] strip_carol)
  apply (simp add: app_state_def photo_png_def)
  done

text \<open>The loop body raises only when the extraction fails or when the candidate name
  cannot be a key of a dict: no failure of the evaluation leaves it.\<close>

lemma process_resume_raises_only:
  assumes "process_resume E jd_text resume st0 = (Some err, st1)"
  shows "(fetch_text_content E resume = Inl err \<and> st1 = st0)
         \<or> (\<exists>t v. fetch_text_content E resume = Inr t \<and> \<not> hashable v
                   \<and> err = TypeError (''unhashable type: '' @ quote (type_name v)))"
proof (cases "fetch_text_content E resume")
  case (Inl e)
  with assms show ?thesis by (simp add: process_resume_def)
next
  case (Inr t)
  obtain v s' where p: "perform_resume_evaluation E jd_text t (sent st0) = (v, s')"
    by (cases "perform_resume_evaluation E jd_text t (sent st0)")
  obtain r where r: "parse_evaluation E v = Inr r"
    using parse_evaluation_not_Inl[of E v] by (cases "parse_evaluation E v") auto
  show ?thesis
    using assms Inr p r
    by (cases "hashable (candidate_name r)") (auto simp: process_resume_def Let_def)
qed

lemma sentinel_gives_zero_record:
  "parse_evaluation E (JDict [(''error'', m)]) =
     Inr \<lparr>score = 0, match_status = JStr ''No'', skills_list = JList [],
          rationale = JStr '''', candidate_name = JStr ''Unknown'',
          email_addr = JStr ''N/A''\<rparr>"
  by (simp add: parse_evaluation_def parse_evaluation_try_def)

text \<open>A failure of the AI service, or of the decoding of its answer, does not reach
  the loop as an exception: the evaluation turns it into the sentinel, and the file
  gets the zero-score record of the candidate \<^verbatim>\<open>"Unknown"\<close>; no message is shown.\<close>

lemma try_resume_engine_failure:
  assumes "fetch_text_content E resume = Inr t" and "strip t \<noteq> []"
    and "chat_create E (sent st0) (evaluation_request jd_text t) = Inl e
         \<or> (\<exists>c. chat_create E (sent st0) (evaluation_request jd_text t) = Inr c
                \<and> loads_content E c = Inl e)"
  shows "try_resume E jd_text resume st0 =
           (None, st0\<lparr>sent := sent st0 @ [evaluation_request jd_text t],
                      results := results st0 @ [unknown_row],
                      resume_texts := dict_set (resume_texts st0) (JStr ''Unknown'') t\<rparr>)"
proof -
  have "perform_resume_evaluation E jd_text t (sent st0) =
          (JDict [(''error'', JStr (''AI evaluation failed: '' @ str_exc e))],
           sent st0 @ [evaluation_request jd_text t])"
    using assms(2,3) by (auto simp: perform_resume_evaluation_def Let_def)
  then show ?thesis
    using assms(1)
    by (simp add: try_resume_def process_resume_def sentinel_gives_zero_record unknown_row_def)
qed

lemma fetch_alice_failing:
  "fetch_text_content failing_env alice_txt = Inr ''Alice. Python, SQL.''"
  by (simp add: fetch_text_content_def alice_txt_def get_txt_content_def failing_env_def
        demo_env_def strip_alice)

lemma fetch_alice_garbled:
  "fetch_text_content garbled_env alice_txt = Inr ''Alice. Python, SQL.''"
  by (simp add: fetch_text_content_def alice_txt_def get_txt_content_def garbled_env_def
        demo_env_def strip_alice)

lemma loads_garbled:
  "loads_content garbled_env (Some ''I cannot answer that.'') =
     Inl (LibraryError ''JSONDecodeError'' ''Expecting value: line 1 column 1 (char 0)'')"
  by (simp add: loads_content_def garbled_env_def demo_env_def jane_reply_def qa_reply_def)

text \<open>Claim C1, as the code has it: in every batch, an exception raised by the
  extraction of a file, or by any other statement of the loop body, is caught and
  shown under the name of that file, and the loop goes on: it ends without an
  exception, every file whose text is extracted gets its record and, unless its text
  is blank, its request to the AI service, in the order of the batch, and every file
  whose extraction fails has its message among those shown. A failure of the
  evaluation is not shown under the name of the file: the loop body raises only for a
  failed extraction or a candidate name that cannot be a key, and when the AI service
  fails, or its answer cannot be decoded, the file gets the zero-score record of the
  candidate \<^verbatim>\<open>"Unknown"\<close> with an empty rationale, and the messages shown stay as
  they were.\<close>

theorem evaluate_uploads_isolates_failures:
  "(\<exists>st'. evaluate_uploads E jd_text upload_files st = (None, st')
      \<and> length (results st') = length (results st) + length (extracted_texts E upload_files)
      \<and> sent st' = sent st @ map (evaluation_request jd_text)
                               (filter (\<lambda>t. strip t \<noteq> []) (extracted_texts E upload_files))
      \<and> (\<forall>f\<in>set upload_files. \<forall>e. fetch_text_content E f = Inl e \<longrightarrow>
             ''Failed to process '' @ name f @ '': '' @ str_exc e \<in> set (shown_errors st')))
   \<and> (\<forall>resume st0 err st1. process_resume E jd_text resume st0 = (Some err, st1) \<longrightarrow>
         try_resume E jd_text resume st0 =
           (None, st1\<lparr>shown_errors := shown_errors st1 @
                        [''Failed to process '' @ name resume @ '': '' @ str_exc err]\<rparr>)
         \<and> ((fetch_text_content E resume = Inl err \<and> st1 = st0)
            \<or> (\<exists>t v. fetch_text_content E resume = Inr t \<and> \<not> hashable v
                      \<and> err = TypeError (''unhashable type: '' @ quote (type_name v)))))
   \<and> (\<forall>resume t st0 e.
         fetch_text_content E resume = Inr t \<and> strip t \<noteq> []
         \<and> chat_create E (sent st0) (evaluation_request jd_text t) = Inl e \<longrightarrow>
         try_resume E jd_text resume st0 =
           (None, st0\<lparr>sent := sent st0 @ [evaluation_request jd_text t],
                      results := results st0 @ [unknown_row],
                      resume_texts := dict_set (resume_texts st0) (JStr ''Unknown'') t\<rparr>))
   \<and> (\<forall>resume t st0 c e.
         fetch_text_content E resume = Inr t \<and> strip t \<noteq> []
         \<and> chat_create E (sent st0) (evaluation_request jd_text t) = Inr c
         \<and> loads_content E c = Inl e \<longrightarrow>
         try_resume E jd_text resume st0 =
           (None, st0\<lparr>sent := sent st0 @ [evaluation_request jd_text t],
                      results := results st0 @ [unknown_row],
                      resume_texts := dict_set (resume_texts st0) (JStr ''Unknown'') t\<rparr>))"
proof (intro conjI allI impI)
  show "\<exists>st'. evaluate_uploads E jd_text upload_files st = (None, st')
      \<and> length (results st') = length (results st) + length (extracted_texts E upload_files)
      \<and> sent st' = sent st @ map (evaluation_request jd_text)
                               (filter (\<lambda>t. strip t \<noteq> []) (extracted_texts E upload_files))
      \<and> (\<forall>f\<in>set upload_files. \<forall>e. fetch_text_content E f = Inl e \<longrightarrow>
             ''Failed to process '' @ name f @ '': '' @ str_exc e \<in> set (shown_errors st'))"
    using evaluate_uploads_invariant[of E jd_text upload_files st] by blast
next
  fix resume st0 err st1
  assume "process_resume E jd_text resume st0 = (Some err, st1)"
  then show "try_resume E jd_text resume st0 =
           (None, st1\<lparr>shown_errors := shown_errors st1 @
                        [''Failed to process '' @ name resume @ '': '' @ str_exc err]\<rparr>)"
    by (simp add: try_resume_def)
next
  fix resume st0 err st1
  assume "process_resume E jd_text resume st0 = (Some err, st1)"
  then show "(fetch_text_content E resume = Inl err \<and> st1 = st0)
            \<or> (\<exists>t v. fetch_text_content E resume = Inr t \<and> \<not> hashable v
                      \<and> err = TypeError (''unhashable type: '' @ quote (type_name v)))"
    by (rule process_resume_raises_only)
next
  fix resume t and st0 :: state and e
  assume "fetch_text_content E resume = Inr t \<and> strip t \<noteq> []
         \<and> chat_create E (sent st0) (evaluation_request jd_text t) = Inl e"
  then show "try_resume E jd_text resume st0 =
           (None, st0\<lparr>sent := sent st0 @ [evaluation_request jd_text t],
                      results := results st0 @ [unknown_row],
                      resume_texts := dict_set (resume_texts st0) (JStr ''Unknown'') t\<rparr>)"
    using try_resume_engine_failure[of E resume t st0 jd_text e] by blast
next
  fix resume t and st0 :: state and c e
  assume "fetch_text_content E resume = Inr t \<and> strip t \<noteq> []
         \<and> chat_create E (sent st0) (evaluation_request jd_text t) = Inr c
         \<and> loads_content E c = Inl e"
  then show "try_resume E jd_text resume st0 =
           (None, st0\<lparr>sent := sent st0 @ [evaluation_request jd_text t],
                      results := results st0 @ [unknown_row],
                      resume_texts := dict_set (resume_texts st0) (JStr ''Unknown'') t\<rparr>)"
    using try_resume_engine_failure[of E resume t st0 jd_text e] by blast
qed

theorem evaluate_uploads_isolates_failures_witness:
  "photo_png \<in> set demo_files
   \<and> fetch_text_content demo_env photo_png =
       Inl (ValueError ''Unsupported file type. Provide PDF, DOCX, or TXT only.'')
   \<and> process_resume demo_env ''Python developer'' photo_png app_state =
       (Some (ValueError ''Unsupported file type. Provide PDF, DOCX, or TXT only.''), app_state)
   \<and> try_resume demo_env ''Python developer'' photo_png app_state =
       (None, app_state\<lparr>shown_errors :=
          [''Failed to process photo.png: Unsupported file type. Provide PDF, DOCX, or TXT only.'']\<rparr>)
   \<and> (\<exists>st'. evaluate_uploads demo_env ''Python developer'' demo_files app_state = (None, st')
         \<and> length (results st') = 2
         \<and> sent st' = [evaluation_request ''Python developer'' ''Alice. Python, SQL.'',
                       evaluation_request ''Python developer'' ''Carol. Java.'']
         \<and> ''Failed to process photo.png: Unsupported file type. Provide PDF, DOCX, or TXT only.''
             \<in> set (shown_errors st'))
   \<and> fetch_text_content failing_env alice_txt = Inr ''Alice. Python, SQL.''
   \<and> strip ''Alice. Python, SQL.'' \<noteq> []
   \<and> chat_create failing_env (sent app_state)
         (evaluation_request ''Python developer'' ''Alice. Python, SQL.'') =
       Inl (LibraryError ''APIConnectionError'' ''Connection error.'')
   \<and> try_resume failing_env ''Python developer'' alice_txt app_state =
       (None, app_state\<lparr>sent := [evaluation_request ''Python developer'' ''Alice. Python, SQL.''],
                         results := [unknown_row],
                         resume_texts := [(JStr ''Unknown'', ''Alice. Python, SQL.'')]\<rparr>)
   \<and> fetch_text_content garbled_env alice_txt = Inr ''Alice. Python, SQL.''
   \<and> chat_create garbled_env (sent app_state)
         (evaluation_request ''Python developer'' ''Alice. Python, SQL.'') =
       Inr (Some ''I cannot answer that.'')
   \<and> loads_content garbled_env (Some ''I cannot answer that.'') =
       Inl (LibraryError ''JSONDecodeError'' ''Expecting value: line 1 column 1 (char 0)'')
   \<and> try_resume garbled_env ''Python developer'' alice_txt app_state =
       (None, app_state\<lparr>sent := [evaluation_request ''Python developer'' ''Alice. Python, SQL.''],
                         results := [unknown_row],
                         resume_texts := [(JStr ''Unknown'', ''Alice. Python, SQL.'')]\<rparr>)"
proof -
  note inst = evaluate_uploads_isolates_failures
               [of demo_env "''Python developer''" demo_files app_state]
  note inst_failing = evaluate_uploads_isolates_failures
               [of failing_env "''Python developer''" demo_files app_state]
  note inst_garbled = evaluate_uploads_isolates_failures
               [of garbled_env "''Python developer''" demo_files app_state]
  have mem: "photo_png \<in> set demo_files"
    by (simp add: demo_files_def)
  have body: "process_resume demo_env ''Python developer'' photo_png app_state =
       (Some (ValueError ''Unsupported file type. Provide PDF, DOCX, or TXT only.''), app_state)"
    by (simp add: process_resume_def fetch_photo)
  from inst body have
    "try_resume demo_env ''Python developer'' photo_png app_state =
       (None, app_state\<lparr>shown_errors := shown_errors app_state @
          [''Failed to process '' @ name photo_png @ '': '' @
           str_exc (ValueError ''Unsupported file type. Provide PDF, DOCX, or TXT only.'')]\<rparr>)"
    by blast
  then have caught: "try_resume demo_env ''Python developer'' photo_png app_state =
       (None, app_state\<lparr>shown_errors :=
          [''Failed to process photo.png: Unsupported file type. Provide PDF, DOCX, or TXT only.'']\<rparr>)"
    by (simp add: photo_png_def app_state_def)
  from inst obtain st' where
    st': "evaluate_uploads demo_env ''Python developer'' demo_files app_state = (None, st')"
      "length (results st') =
         length (results app_state) + length (extracted_texts demo_env demo_files)"
      "sent st' = sent app_state @ map (evaluation_request ''Python developer'')
         (filter (\<lambda>t. strip t \<noteq> []) (extracted_texts demo_env demo_files))"
      "\<forall>f\<in>set demo_files. \<forall>e. fetch_text_content demo_env f = Inl e \<longrightarrow>
         ''Failed to process '' @ name f @ '': '' @ str_exc e \<in> set (shown_errors st')"
    by blast
  have n: "length (results st') = 2"
    using st'(2) by (simp add: extracted_demo app_state_def)
  have s: "sent st' = [evaluation_request ''Python developer'' ''Alice. Python, SQL.'',
                       evaluation_request ''Python developer'' ''Carol. Java.'']"
    using st'(3) by (simp add: extracted_demo app_state_def strip_alice strip_carol)
  have m: "''Failed to process photo.png: Unsupported file type. Provide PDF, DOCX, or TXT only.''
             \<in> set (shown_errors st')"
    using st'(4) mem fetch_photo by (fastforce simp: photo_png_def)
  have ne: "strip ''Alice. Python, SQL.'' \<noteq> []"
    by (simp add: strip_alice)
  have chat_f: "chat_create failing_env (sent app_state)
         (evaluation_request ''Python developer'' ''Alice. Python, SQL.'') =
       Inl (LibraryError ''APIConnectionError'' ''Connection error.'')"
    by (simp add: failing_env_def)
  from inst_failing fetch_alice_failing ne chat_f have
    "try_resume failing_env ''Python developer'' alice_txt app_state =
       (None, app_state\<lparr>sent := sent app_state @
                           [evaluation_request ''Python developer'' ''Alice. Python, SQL.''],
                         results := results app_state @ [unknown_row],
                         resume_texts := dict_set (resume_texts app_state) (JStr ''Unknown'')
                                           ''Alice. Python, SQL.''\<rparr>)"
    by blast
  then have silent_f: "try_resume failing_env ''Python developer'' alice_txt app_state =
       (None, app_state\<lparr>sent := [evaluation_request ''Python developer'' ''Alice. Python, SQL.''],
                         results := [unknown_row],
                         resume_texts := [(JStr ''Unknown'', ''Alice. Python, SQL.'')]\<rparr>)"
    by (simp add: app_state_def)
  have chat_g: "chat_create garbled_env (sent app_state)
         (evaluation_request ''Python developer'' ''Alice. Python, SQL.'') =
       Inr (Some ''I cannot answer that.'')"
    by (simp add: garbled_env_def)
  from inst_garbled fetch_alice_garbled ne chat_g loads_garbled have
    "try_resume garbled_env ''Python developer'' alice_txt app_state =
       (None, app_state\<lparr>sent := sent app_state @
                           [evaluation_request ''Python developer'' ''Alice. Python, SQL.''],
                         results := results app_state @ [unknown_row],
                         resume_texts := dict_set (resume_texts app_state) (JStr ''Unknown'')
                                           ''Alice. Python, SQL.''\<rparr>)"
    by blast
  then have silent_g: "try_resume garbled_env ''Python developer'' alice_txt app_state =
       (None, app_state\<lparr>sent := [evaluation_request ''Python developer'' ''Alice. Python, SQL.''],
                         results := [unknown_row],
                         resume_texts := [(JStr ''Unknown'', ''Alice. Python, SQL.'')]\<rparr>)"
    by (simp add: app_state_def)
  show ?thesis
    using mem fetch_photo body caught st'(1) n s m fetch_alice_failing ne chat_f silent_f
      fetch_alice_garbled chat_g loads_garbled silent_g
    by blast
qed

text \<open>Claim C1, as the spec states it, fails: in a batch of one file whose evaluation
  fails because the AI service raises, the loop ends with the zero-score record of the
  candidate \<^verbatim>\<open>"Unknown"\<close> and no message at all, so the failure is not shown under the
  name of the file.\<close>

theorem service_failure_not_reported_counterexample:
  "chat_create failing_env []
      (evaluation_request ''Python developer'' ''Alice. Python, SQL.'') =
     Inl (LibraryError ''APIConnectionError'' ''Connection error.'')
   \<and> evaluate_uploads failing_env ''Python developer'' [alice_txt] app_state =
       (None, app_state\<lparr>
          results := [unknown_row],
          resume_texts := [(JStr ''Unknown'', ''Alice. Python, SQL.'')],
          sent := [evaluation_request ''Python developer'' ''Alice. Python, SQL.'']\<rparr>)
   \<and> shown_errors (snd (evaluate_uploads failing_env ''Python developer'' [alice_txt] app_state))
       = []"
proof -
  have p: "perform_resume_evaluation failing_env ''Python developer'' ''Alice. Python, SQL.'' [] =
             (JDict [(''error'', JStr ''AI evaluation failed: Connection error.'')],
              [evaluation_request ''Python developer'' ''Alice. Python, SQL.''])"
    by (simp add: perform_resume_evaluation_def Let_def strip_alice failing_env_def)
  have t: "try_resume failing_env ''Python developer'' alice_txt app_state =
       (None, app_state\<lparr>
          results := [unknown_row],
          resume_texts := [(JStr ''Unknown'', ''Alice. Python, SQL.'')],
          sent := [evaluation_request ''Python developer'' ''Alice. Python, SQL.'']\<rparr>)"
    by (simp add: try_resume_def process_resume_def fetch_alice_failing)
       (simp add: app_state_def p sentinel_gives_zero_record unknown_row_def)
  have c: "chat_create failing_env []
      (evaluation_request ''Python developer'' ''Alice. Python, SQL.'') =
     Inl (LibraryError ''APIConnectionError'' ''Connection error.'')"
    by (simp add: failing_env_def)
  show ?thesis
    using c by (simp add: evaluate_uploads_def t) (simp add: app_state_def)
qed

subsection \<open>Usage logging\<close>

text \<open>After the loop, the usage is logged when the batch has given a record. Were the
  session to hold \<open>user_info\<close> with an email, the entry logged would count the files
  uploaded, not the records.\<close>

lemma analyze_user_info_present:
  assumes "user_info st = Some info" and "map_of info ''email'' = Some email"
  shows "usage_logs (snd (analyze E jd_text upload_files st)) =
           usage_logs st @
           (if extracted_texts E upload_files = [] then []
            else [\<lparr>user_email = email, resumes_processed = int (length upload_files)\<rparr>])"
proof -
  let ?s0 = "st\<lparr>results := [], resume_texts := []\<rparr>"
  from evaluate_uploads_invariant[of E jd_text upload_files ?s0] obtain st' where
    st': "evaluate_uploads E jd_text upload_files ?s0 = (None, st')"
      "length (results st') = length (results ?s0) + length (extracted_texts E upload_files)"
      "usage_logs st' = usage_logs ?s0" "user_info st' = user_info ?s0"
    by blast
  have nonempty: "results st' \<noteq> [] \<longleftrightarrow> extracted_texts E upload_files \<noteq> []"
    using st'(2) by auto
  show ?thesis
    using st'(1,3,4) assms nonempty
    by (auto simp: analyze_def user_info_email_def log_usage_def Let_def split: option.splits)
qed

text \<open>The session of the application has no \<open>user_info\<close>: as soon as the batch has
  given a record, reading it raises, outside every \<^verbatim>\<open>try\<close>, and nothing is logged.\<close>

lemma analyze_user_info_missing:
  assumes "user_info st = None" and "extracted_texts E upload_files \<noteq> []"
  shows \<open>\<exists>st'. analyze E jd_text upload_files st =
           (Some (AttributeError ''st.session_state has no attribute "user_info". Did you forget to initialize it?''), st')
         \<and> usage_logs st' = usage_logs st\<close>
proof -
  let ?s0 = "st\<lparr>results := [], resume_texts := []\<rparr>"
  from evaluate_uploads_invariant[of E jd_text upload_files ?s0] obtain st' where
    st': "evaluate_uploads E jd_text upload_files ?s0 = (None, st')"
      "length (results st') = length (results ?s0) + length (extracted_texts E upload_files)"
      "usage_logs st' = usage_logs ?s0" "user_info st' = user_info ?s0"
    by blast
  have "results st' \<noteq> []"
    using st'(2) assms(2) by auto
  then show ?thesis
    using st'(1,3,4) assms(1) by (simp add: analyze_def user_info_email_def)
qed

text \<open>Claim C6 on the code: in the session that \<^verbatim>\<open>app.py\<close> sets up, the evaluation of
  the example batch (three files, two records) ends with the \<open>AttributeError\<close> of the
  missing \<open>user_info\<close>, and the usage log stays empty, where the claim has a report with
  the count 3.\<close>

theorem analyze_skips_usage_log:
  \<open>analyze demo_env ''Python developer'' demo_files app_state =
    (Some (AttributeError ''st.session_state has no attribute "user_info". Did you forget to initialize it?''),
     app_state\<lparr>
       results := [jane_row, jane_row],
       resume_texts := [(JStr ''Jane Doe'', ''Carol. Java.'')],
       sent := [evaluation_request ''Python developer'' ''Alice. Python, SQL.'',
                evaluation_request ''Python developer'' ''Carol. Java.''],
       shown_errors := [''Failed to process photo.png: Unsupported file type. Provide PDF, DOCX, or TXT only.'']\<rparr>)
   \<and> usage_logs (snd (analyze demo_env ''Python developer'' demo_files app_state)) = []
   \<and> length demo_files = 3\<close>
  by (simp add: analyze_def evaluate_uploads_demo user_info_email_def)
     (simp add: app_state_def demo_files_def)

subsection \<open>Ranking\<close>

lemma sorted_reverse_descending:
  "sorted_wrt (\<lambda>a b. key a \<ge> key b) (sorted_reverse key xs)"
proof -
  have "sorted (map key (sort_key key (rev xs)))" by simp
  then have "sorted_wrt (\<lambda>a b. key a \<le> key b) (sort_key key (rev xs))"
    by (simp add: sorted_map)
  then show ?thesis
    unfolding sorted_reverse_def by (simp add: sorted_wrt_rev)
qed

lemma sorted_reverse_stable:
  "filter (\<lambda>r. key r = k) (sorted_reverse key xs) = filter (\<lambda>r. key r = k) xs"
proof -
  have "filter (\<lambda>r. key r = k) (sorted_reverse key xs) =
        rev (filter (\<lambda>r. key r = k) (sort_key key (rev xs)))"
    unfolding sorted_reverse_def by (simp add: rev_filter)
  also have "\<dots> = rev (filter (\<lambda>r. key r = k) (rev xs))"
    by (simp only: sort_key_stable)
  also have "\<dots> = filter (\<lambda>r. key r = k) xs"
    by (simp add: rev_filter)
  finally show ?thesis .
qed

lemma mset_sorted_reverse: "mset (sorted_reverse key xs) = mset xs"
  by (simp add: sorted_reverse_def)

text \<open>Claim C5: for every list of records, the ranking holds the same records, in
  descending order of score, and the records of any one score are in the order in
  which they were submitted; the records with the scores 40, 90, 90, 10 come out as
  second, third, first, fourth.\<close>

theorem rank_sorted_stable:
  "sorted_wrt (\<lambda>a b. Score a \<ge> Score b) (sorted_reverse Score rs)
   \<and> mset (sorted_reverse Score rs) = mset rs
   \<and> (\<forall>k. filter (\<lambda>r. Score r = k) (sorted_reverse Score rs) = filter (\<lambda>r. Score r = k) rs)
   \<and> sorted_reverse Score four_rows =
       [row ''second'' 90, row ''third'' 90, row ''first'' 40, row ''fourth'' 10]"
proof (intro conjI allI)
  show "sorted_reverse Score four_rows =
       [row ''second'' 90, row ''third'' 90, row ''first'' 40, row ''fourth'' 10]"
    by (simp add: sorted_reverse_def four_rows_def row_def)
qed (rule sorted_reverse_descending mset_sorted_reverse sorted_reverse_stable)+

subsection \<open>Selection of a candidate\<close>

lemma nth_0_hd: "xs \<noteq> [] \<Longrightarrow> xs ! 0 = hd xs"
  by (cases xs) simp_all

text \<open>With no selection, or one that counts as false, the widget starts at the
  top-ranked candidate.\<close>

lemma select_candidate_unset:
  assumes "\<not> truthy (selected_candidate st)" and "results st \<noteq> []"
  shows "select_candidate E None st =
           (None, st\<lparr>selected_candidate :=
                       Candidate_Name (hd (sorted_reverse Score (results st)))\<rparr>)"
proof -
  have ne: "sorted_reverse Score (results st) \<noteq> []"
    using assms(2) by (metis mset_sorted_reverse mset_zero_iff)
  then show ?thesis
    using assms(1) by (simp add: select_candidate_def default_index_def selectbox_def
        nth_0_hd hd_map)
qed

lemma find_index_from_None:
  "(\<forall>y\<in>set ys. \<not> py_eq y x) \<Longrightarrow> find_index_from i ys x = None"
  by (induction ys arbitrary: i) auto

text \<open>With a selection that is equal to none of the names of the ranked list, the
  search for its position raises, and nothing catches it.\<close>

lemma select_candidate_stale:
  assumes "truthy (selected_candidate st)"
    and "\<forall>r\<in>set (results st). \<not> py_eq (Candidate_Name r) (selected_candidate st)"
  shows "select_candidate E pick st =
           (Some (ValueError (py_repr E (selected_candidate st) @ '' is not in list'')), st)"
proof -
  have "\<forall>y\<in>set (map Candidate_Name (sorted_reverse Score (results st))).
          \<not> py_eq y (selected_candidate st)"
    using assms(2) by (simp add: sorted_reverse_def)
  then have "find_index_from 0 (map Candidate_Name (sorted_reverse Score (results st)))
               (selected_candidate st) = None"
    by (rule find_index_from_None)
  then show ?thesis
    using assms(1) by (simp add: select_candidate_def default_index_def list_index_def)
qed

text \<open>Claim C9 on the code: with Alice selected before and a new ranked list that
  holds Bob only, the selection step raises \<open>ValueError\<close> and the whole run of the
  dashboard ends with it, where the claim has the selection fall back to the
  top-ranked candidate, Bob.\<close>

theorem stale_selection_raises:
  "select_candidate demo_env None stale_state =
     (Some (ValueError (quote ''Alice'' @ '' is not in list'')), stale_state)
   \<and> display_resume_dashboard demo_env ''Python developer'' [] False None stale_state =
     (Some (ValueError (quote ''Alice'' @ '' is not in list'')), stale_state)
   \<and> map Candidate_Name (sorted_reverse Score (results stale_state)) = [JStr ''Bob'']"
  by (simp add: display_resume_dashboard_def select_candidate_def stale_state_def app_state_def
        sorted_reverse_def default_index_def list_index_def row_def py_repr_def demo_env_def)

subsection \<open>Interview questions\<close>









end
